theory Spec2Isabelle
  imports Complex_Main "HOL-Library.Multiset"
begin

section \<open>The hub score calculator and the candidate grid search of hub_optimiser.py\<close>

text \<open>
  The embedding follows \<^verbatim>\<open>src/hub_optimiser.py\<close>: the nearest-transport lookup
  \<^verbatim>\<open>MobilityDataCollector.calculate_distance_to_transport\<close>, the scorer
  \<^verbatim>\<open>HubScoreCalculator.calculate_hub_score\<close> with its three helpers, and the candidate
  lattice of \<^verbatim>\<open>generate_hub_recommendations\<close>.

  Conventions of the model.
  \<^item> Python floats are exact reals. The one non-finite value the code creates,
    \<^verbatim>\<open>float('inf')\<close>, is the constructor \<open>PInf\<close> of the type \<open>ext\<close>, and the
    arithmetic the code does on it is written out where it happens. Where the rounding
    of the floats decides a property, the bike demand is modelled a second time in double
    precision.
  \<^item> \<^verbatim>\<open>geopy.distance.geodesic(a, b).meters\<close> is a library function; the model takes
    it as the parameter \<open>geodesic\<close>.
  \<^item> A pandas data frame is the list of its rows, in index order.
  \<^item> A raised exception is the left injection of a sum type.
\<close>

subsection \<open>Values\<close>

datatype ext = Fin real | PInf

fun ext_less :: "ext \<Rightarrow> ext \<Rightarrow> bool" where
  "ext_less (Fin a) (Fin b) = (a < b)"
| "ext_less (Fin a) PInf = True"
| "ext_less PInf b = False"

fun ext_le :: "ext \<Rightarrow> ext \<Rightarrow> bool" where
  "ext_le (Fin a) (Fin b) = (a \<le> b)"
| "ext_le a PInf = True"
| "ext_le PInf (Fin b) = False"

text \<open>Python's \<^verbatim>\<open>min(a, b)\<close>: the first argument unless the second is smaller.\<close>

definition ext_min :: "ext \<Rightarrow> ext \<Rightarrow> ext" where
  "ext_min a b = (if ext_less b a then b else a)"

text \<open>\<^verbatim>\<open>x / c\<close> for a positive constant \<open>c\<close>: \<^verbatim>\<open>inf / c\<close> is \<^verbatim>\<open>inf\<close>.\<close>

fun ext_div :: "ext \<Rightarrow> real \<Rightarrow> ext" where
  "ext_div (Fin a) c = Fin (a / c)"
| "ext_div PInf c = PInf"

text \<open>\<^verbatim>\<open>min(1.0, x)\<close>, a finite number also when \<open>x\<close> is \<^verbatim>\<open>inf\<close>.\<close>

fun min_one :: "ext \<Rightarrow> real" where
  "min_one (Fin x) = min 1 x"
| "min_one PInf = 1"

text \<open>
  \<^verbatim>\<open>max(0, base - (distance_meters - 500) / 100)\<close>: at \<^verbatim>\<open>inf\<close> the second argument is
  \<^verbatim>\<open>-inf\<close> and the maximum is 0.
\<close>

fun decay :: "real \<Rightarrow> ext \<Rightarrow> real" where
  "decay base (Fin d) = max 0 (base - (d - 500) / 100)"
| "decay base PInf = 0"

text \<open>
  Python's \<^verbatim>\<open>round(x, 2)\<close>: the nearest multiple of 0.01, a tie going to the even
  neighbour.
\<close>

definition round_half_even :: "real \<Rightarrow> int" where
  "round_half_even y =
     (let f = \<lfloor>y\<rfloor>; r = y - of_int f
      in if r < 1 / 2 then f
         else if 1 / 2 < r then f + 1
         else if even f then f else f + 1)"

definition round2 :: "real \<Rightarrow> real" where
  "round2 x = of_int (round_half_even (x * 100)) / 100"

text \<open>
  The exceptions. \<open>TypeError\<close> is what Python raises for \<^verbatim>\<open>'name' in None\<close>, and
  \<open>ZeroDivisionError\<close> for a float division by zero; \<open>EmptyReferenceSet\<close> and
  \<open>MalformedBounds\<close> are the conditions the specification's error taxonomy names.
  No function below produces either of the last two.
\<close>

datatype error = TypeError | ZeroDivisionError | EmptyReferenceSet | MalformedBounds

subsection \<open>Rows of the data frames\<close>

type_synonym point = "real \<times> real"

record geo_row =
  latitude :: real
  longitude :: real

text \<open>
  A row of \<^verbatim>\<open>bus_df\<close> or \<^verbatim>\<open>luas_df\<close>. Of the other columns the lookup reads only
  \<^verbatim>\<open>name\<close> and \<^verbatim>\<open>station_name\<close>, each of which a frame may lack (\<open>None\<close>): the bus
  frame has neither (its label column is \<^verbatim>\<open>stop_name\<close>), the Luas frame has
  \<^verbatim>\<open>station_name\<close>.
\<close>

record transport = geo_row +
  name_col :: "string option"
  station_name_col :: "string option"

record bike = geo_row +
  availability_score :: int

definition position :: "'a geo_row_scheme \<Rightarrow> point" where
  "position r = (latitude r, longitude r)"

subsection \<open>calculate_distance_to_transport\<close>

record proximity =
  distance_meters :: ext
  nearest_station :: string
  within_500m :: bool
  within_200m :: bool

text \<open>The loop over the rows; the state is \<open>(min_distance, nearest_transport)\<close>.\<close>

fun nearest_loop ::
  "(point \<Rightarrow> point \<Rightarrow> real) \<Rightarrow> point \<Rightarrow> ext \<times> transport option \<Rightarrow> transport list
   \<Rightarrow> ext \<times> transport option" where
  "nearest_loop geodesic p st [] = st"
| "nearest_loop geodesic p (min_distance, nearest_transport) (t # ts) =
     (let distance = geodesic p (position t)
      in if ext_less (Fin distance) min_distance
         then nearest_loop geodesic p (Fin distance, Some t) ts
         else nearest_loop geodesic p (min_distance, nearest_transport) ts)"

text \<open>
  \<^verbatim>\<open>nearest_transport['name'] if 'name' in nearest_transport else
  nearest_transport.get('station_name', 'Unknown')\<close>; on \<^verbatim>\<open>None\<close> the membership test
  raises \<^verbatim>\<open>TypeError\<close>.
\<close>

definition station_label :: "transport option \<Rightarrow> error + string" where
  "station_label nearest_transport =
     (case nearest_transport of
        None \<Rightarrow> Inl TypeError
      | Some t \<Rightarrow>
          (case name_col t of
             Some n \<Rightarrow> Inr n
           | None \<Rightarrow> (case station_name_col t of Some n \<Rightarrow> Inr n | None \<Rightarrow> Inr ''Unknown'')))"

definition calculate_distance_to_transport ::
  "(point \<Rightarrow> point \<Rightarrow> real) \<Rightarrow> real \<Rightarrow> real \<Rightarrow> transport list \<Rightarrow> error + proximity" where
  "calculate_distance_to_transport geodesic lat lng transport_df =
     (case nearest_loop geodesic (lat, lng) (PInf, None) transport_df of
        (min_distance, nearest_transport) \<Rightarrow>
          (case station_label nearest_transport of
             Inl e \<Rightarrow> Inl e
           | Inr label \<Rightarrow>
               Inr \<lparr>distance_meters = min_distance,
                    nearest_station = label,
                    within_500m = ext_le min_distance (Fin 500),
                    within_200m = ext_le min_distance (Fin 200)\<rparr>))"

subsection \<open>The helpers of HubScoreCalculator\<close>

text \<open>The loop of \<^verbatim>\<open>_calculate_bike_demand\<close>; the state is \<open>(nearby_demand, station_count)\<close>.\<close>

fun demand_loop ::
  "(point \<Rightarrow> point \<Rightarrow> real) \<Rightarrow> point \<Rightarrow> real \<times> nat \<Rightarrow> bike list \<Rightarrow> real \<times> nat" where
  "demand_loop geodesic p st [] = st"
| "demand_loop geodesic p (nearby_demand, station_count) (s # ss) =
     (let distance = geodesic p (position s)
      in if distance \<le> 1000
         then (let weight = max 0 (1 - distance / 1000)
               in demand_loop geodesic p
                    (nearby_demand + real_of_int (availability_score s) * weight,
                     station_count + 1) ss)
         else demand_loop geodesic p (nearby_demand, station_count) ss)"

definition calculate_bike_demand ::
  "(point \<Rightarrow> point \<Rightarrow> real) \<Rightarrow> real \<Rightarrow> real \<Rightarrow> bike list \<Rightarrow> real" where
  "calculate_bike_demand geodesic lat lng bikes_df =
     (case demand_loop geodesic (lat, lng) (0, 0) bikes_df of
        (nearby_demand, station_count) \<Rightarrow> nearby_demand / real (max station_count 1))"

text \<open>
  The two loops of \<^verbatim>\<open>_calculate_infrastructure_gap\<close> have one shape:
  \<^verbatim>\<open>m = min(m, distance)\<close> over the rows of a frame, from \<^verbatim>\<open>m = float('inf')\<close>.
\<close>

fun min_distance_loop ::
  "(point \<Rightarrow> point \<Rightarrow> real) \<Rightarrow> point \<Rightarrow> ext \<Rightarrow> 'a geo_row_scheme list \<Rightarrow> ext" where
  "min_distance_loop geodesic p m [] = m"
| "min_distance_loop geodesic p m (r # rs) =
     min_distance_loop geodesic p (ext_min m (Fin (geodesic p (position r)))) rs"

text \<open>Lines 426 to 429: the gap as a function of the two nearest distances.\<close>

definition bike_gap :: "ext \<Rightarrow> real" where
  "bike_gap min_bike_distance = min_one (ext_div min_bike_distance 1000)"

definition bus_gap :: "ext \<Rightarrow> real" where
  "bus_gap min_bus_distance = min_one (ext_div min_bus_distance 500)"

definition gap_of_distances :: "ext \<Rightarrow> ext \<Rightarrow> real" where
  "gap_of_distances min_bike_distance min_bus_distance =
     (bike_gap min_bike_distance + bus_gap min_bus_distance) / 2"

definition calculate_infrastructure_gap ::
  "(point \<Rightarrow> point \<Rightarrow> real) \<Rightarrow> real \<Rightarrow> real \<Rightarrow> bike list \<Rightarrow> transport list \<Rightarrow> real" where
  "calculate_infrastructure_gap geodesic lat lng bikes_df bus_df =
     (let min_bike_distance = min_distance_loop geodesic (lat, lng) PInf bikes_df;
          min_bus_distance = min_distance_loop geodesic (lat, lng) PInf bus_df
      in gap_of_distances min_bike_distance min_bus_distance)"

definition key_locations :: "point list" where
  "key_locations = [(53.3498, -6.2603), (53.3446, -6.2691), (53.3387, -6.2613)]"

definition calculate_accessibility_score ::
  "(point \<Rightarrow> point \<Rightarrow> real) \<Rightarrow> real \<Rightarrow> real \<Rightarrow> real" where
  "calculate_accessibility_score geodesic lat lng =
     (let min_distance_to_amenity = Min (set (map (geodesic (lat, lng)) key_locations))
      in max 0 (1 - min_distance_to_amenity / 2000))"

subsection \<open>calculate_hub_score\<close>

text \<open>
  The local variables of \<^verbatim>\<open>calculate_hub_score\<close> before the result is built
  (lines 348 to 378), and the dictionary it returns (lines 380 to 394).
\<close>

record score_locals =
  l_bus_proximity :: proximity
  l_luas_proximity :: proximity
  l_transport_score :: real
  l_bike_demand :: real
  l_demand_score :: real
  l_gap_score :: real
  l_accessibility_score :: real
  l_population_score :: real
  l_total_score :: real

record score_data =
  total_score :: real
  transport_score :: real
  demand_score :: real
  gap_score :: real
  accessibility_score :: real
  population_score :: real
  nearest_bus :: string
  bus_distance :: ext
  nearest_luas :: string
  luas_distance :: ext
  bike_demand :: real

definition bus_points :: "proximity \<Rightarrow> real" where
  "bus_points bus_proximity =
     (if within_200m bus_proximity then 15
      else if within_500m bus_proximity then 10
      else decay 10 (distance_meters bus_proximity))"

definition luas_points :: "proximity \<Rightarrow> real" where
  "luas_points luas_proximity =
     (if within_500m luas_proximity then 20
      else decay 15 (distance_meters luas_proximity))"

definition hub_score_locals ::
  "(point \<Rightarrow> point \<Rightarrow> real) \<Rightarrow> bike list \<Rightarrow> transport list \<Rightarrow> transport list
   \<Rightarrow> real \<Rightarrow> real \<Rightarrow> error + score_locals" where
  "hub_score_locals geodesic bikes_df bus_df luas_df lat lng =
     (case calculate_distance_to_transport geodesic lat lng bus_df of
        Inl e \<Rightarrow> Inl e
      | Inr bus_proximity \<Rightarrow>
     (case calculate_distance_to_transport geodesic lat lng luas_df of
        Inl e \<Rightarrow> Inl e
      | Inr luas_proximity \<Rightarrow>
     (let transport_score = 0 + bus_points bus_proximity + luas_points luas_proximity;
          bike_demand = calculate_bike_demand geodesic lat lng bikes_df;
          demand_score = min (bike_demand / 20 * 25) 25;
          gap_score = calculate_infrastructure_gap geodesic lat lng bikes_df bus_df * 20;
          accessibility_score = calculate_accessibility_score geodesic lat lng * 15;
          population_score = 5;
          total_score = transport_score + demand_score + gap_score + accessibility_score
                        + population_score
      in Inr \<lparr>l_bus_proximity = bus_proximity,
              l_luas_proximity = luas_proximity,
              l_transport_score = transport_score,
              l_bike_demand = bike_demand,
              l_demand_score = demand_score,
              l_gap_score = gap_score,
              l_accessibility_score = accessibility_score,
              l_population_score = population_score,
              l_total_score = total_score\<rparr>)))"

definition score_dict :: "score_locals \<Rightarrow> score_data" where
  "score_dict l =
     \<lparr>total_score = round2 (l_total_score l),
      transport_score = round2 (l_transport_score l),
      demand_score = round2 (l_demand_score l),
      gap_score = round2 (l_gap_score l),
      accessibility_score = round2 (l_accessibility_score l),
      population_score = round2 (l_population_score l),
      nearest_bus = nearest_station (l_bus_proximity l),
      bus_distance = distance_meters (l_bus_proximity l),
      nearest_luas = nearest_station (l_luas_proximity l),
      luas_distance = distance_meters (l_luas_proximity l),
      bike_demand = l_bike_demand l\<rparr>"

definition calculate_hub_score ::
  "(point \<Rightarrow> point \<Rightarrow> real) \<Rightarrow> bike list \<Rightarrow> transport list \<Rightarrow> transport list
   \<Rightarrow> real \<Rightarrow> real \<Rightarrow> error + score_data" where
  "calculate_hub_score geodesic bikes_df bus_df luas_df lat lng =
     (case hub_score_locals geodesic bikes_df bus_df luas_df lat lng of
        Inl e \<Rightarrow> Inl e
      | Inr l \<Rightarrow> Inr (score_dict l))"

subsection \<open>The candidate lattice of generate_hub_recommendations\<close>





subsection \<open>Reference definitions and example data\<close>

text \<open>
  The minimum distance from a point to a non-empty reference set, as the specification
  words it.
\<close>

definition nearest_distance ::
  "(point \<Rightarrow> point \<Rightarrow> real) \<Rightarrow> point \<Rightarrow> 'a geo_row_scheme list \<Rightarrow> real" where
  "nearest_distance geodesic p refs = Min ((\<lambda>r. geodesic p (position r)) ` set refs)"

text \<open>
  A concrete distance for the closed examples, in the place of the library's geodesic:
  100 km per degree along each axis, summed.
\<close>

definition grid_metres :: "point \<Rightarrow> point \<Rightarrow> real" where
  "grid_metres a b = 100000 * (\<bar>fst a - fst b\<bar> + \<bar>snd a - snd b\<bar>)"

text \<open>
  The Trinity College bus stop, the St. Stephen's Green Luas station and the Trinity
  College bike station of the sample data (12 bikes and 8 stands).
\<close>

definition example_bus :: "transport list" where
  "example_bus =
     [\<lparr>latitude = 53.3442, longitude = -6.2540, name_col = None, station_name_col = None\<rparr>]"

definition example_luas :: "transport list" where
  "example_luas =
     [\<lparr>latitude = 53.3387, longitude = -6.2613, name_col = None,
       station_name_col = Some ''St. Stephens Green''\<rparr>]"

definition example_bikes :: "bike list" where
  "example_bikes = [\<lparr>latitude = 53.3439, longitude = -6.2546, availability_score = 20\<rparr>]"

text \<open>
  The raw bike demand as the specification words it: over the stations within 1000 m, the
  sum of \<open>availability_score * max 0 (1 - d / 1000)\<close> divided by their number, or by 1
  when there is none.
\<close>

definition bike_demand_spec ::
  "(point \<Rightarrow> point \<Rightarrow> real) \<Rightarrow> point \<Rightarrow> bike list \<Rightarrow> real" where
  "bike_demand_spec geodesic p bikes =
     (let near = filter (\<lambda>s. geodesic p (position s) \<le> 1000) bikes
      in (\<Sum>s\<leftarrow>near. real_of_int (availability_score s)
                        * max 0 (1 - geodesic p (position s) / 1000))
         / (if near = [] then 1 else real (length near)))"

text \<open>The six numbers of the returned dictionary: the total and the five sub-scores.\<close>

definition scores :: "score_data \<Rightarrow> real \<times> real \<times> real \<times> real \<times> real \<times> real" where
  "scores sd = (total_score sd, transport_score sd, demand_score sd, gap_score sd,
                accessibility_score sd, population_score sd)"



text \<open>
  A bus stop 400 m south and a Luas station 599.6 m north of the point
  \<open>(53.351128, -6.2603)\<close>, which lies 132.8 m north of the first key location.
\<close>

definition rounding_bus :: "transport list" where
  "rounding_bus =
     [\<lparr>latitude = 53.347128, longitude = -6.2603, name_col = None, station_name_col = None\<rparr>]"

definition rounding_luas :: "transport list" where
  "rounding_luas =
     [\<lparr>latitude = 53.357124, longitude = -6.2603, name_col = None,
       station_name_col = Some ''North''\<rparr>]"

subsection \<open>The bike demand in double precision\<close>


















section \<open>Properties\<close>

subsection \<open>The nearest-distance loops\<close>

lemma ext_min_Fin: "ext_min (Fin a) (Fin b) = Fin (min a b)"
  by (simp add: ext_min_def min_def)

lemma ext_min_PInf: "ext_min PInf (Fin b) = Fin b"
  by (simp add: ext_min_def)

lemma nearest_loop_fst:
  "fst (nearest_loop geodesic p (m, n) ts) = min_distance_loop geodesic p m ts"
  by (induction ts arbitrary: m n) (simp_all add: Let_def ext_min_def)

lemma min_distance_loop_Fin:
  "min_distance_loop geodesic p (Fin m) rs
     = Fin (Min (insert m ((\<lambda>r. geodesic p (position r)) ` set rs)))"
proof (induction rs arbitrary: m)
  case Nil
  show ?case by simp
next
  case (Cons r rs)
  have "Min (insert (min m (geodesic p (position r))) ((\<lambda>r. geodesic p (position r)) ` set rs))
      = Min (insert m (insert (geodesic p (position r)) ((\<lambda>r. geodesic p (position r)) ` set rs)))"
    by (cases "set rs = {}") (simp_all add: min.assoc)
  then show ?case by (simp add: Cons.IH ext_min_Fin)
qed

lemma min_distance_loop_nonempty:
  "rs \<noteq> [] \<Longrightarrow> min_distance_loop geodesic p PInf rs = Fin (nearest_distance geodesic p rs)"
  by (cases rs) (simp_all add: ext_min_PInf min_distance_loop_Fin nearest_distance_def)

lemma nearest_loop_snd_Some:
  "n \<noteq> None \<Longrightarrow> snd (nearest_loop geodesic p (m, n) ts) \<noteq> None"
  by (induction ts arbitrary: m n) (simp_all add: Let_def)

lemma nearest_loop_snd_nonempty:
  "ts \<noteq> [] \<Longrightarrow> snd (nearest_loop geodesic p (PInf, None) ts) \<noteq> None"
  by (cases ts) (simp_all add: Let_def nearest_loop_snd_Some)

lemma lookup_empty:
  "calculate_distance_to_transport geodesic lat lng [] = Inl TypeError"
  by (simp add: calculate_distance_to_transport_def station_label_def)

lemma lookup_nonempty:
  assumes "ts \<noteq> []"
  shows "\<exists>label. calculate_distance_to_transport geodesic lat lng ts =
           Inr \<lparr>distance_meters = Fin (nearest_distance geodesic (lat, lng) ts),
                nearest_station = label,
                within_500m = (nearest_distance geodesic (lat, lng) ts \<le> 500),
                within_200m = (nearest_distance geodesic (lat, lng) ts \<le> 200)\<rparr>"
proof -
  obtain m n where st: "nearest_loop geodesic (lat, lng) (PInf, None) ts = (m, n)"
    by (cases "nearest_loop geodesic (lat, lng) (PInf, None) ts")
  have "m = min_distance_loop geodesic (lat, lng) PInf ts"
    using nearest_loop_fst [of geodesic "(lat, lng)" PInf None ts] st by simp
  then have m: "m = Fin (nearest_distance geodesic (lat, lng) ts)"
    using assms by (simp add: min_distance_loop_nonempty)
  have "n \<noteq> None"
    using nearest_loop_snd_nonempty [OF assms, of geodesic "(lat, lng)"] st by simp
  then have "\<exists>label. station_label n = Inr label"
    by (cases n; cases "name_col (the n)"; cases "station_name_col (the n)")
       (simp_all add: station_label_def)
  then obtain label where "station_label n = Inr label" ..
  then show ?thesis
    by (simp add: calculate_distance_to_transport_def st m)
qed

lemma bus_points_Fin:
  "bus_points \<lparr>distance_meters = Fin d, nearest_station = label,
               within_500m = (d \<le> 500), within_200m = (d \<le> 200)\<rparr>
     = (if d \<le> 200 then 15 else if d \<le> 500 then 10 else max 0 (10 - (d - 500) / 100))"
  by (simp add: bus_points_def)

lemma luas_points_Fin:
  "luas_points \<lparr>distance_meters = Fin d, nearest_station = label,
               within_500m = (d \<le> 500), within_200m = (d \<le> 200)\<rparr>
     = (if d \<le> 500 then 20 else max 0 (15 - (d - 500) / 100))"
  by (simp add: luas_points_def)

lemma locals_nonempty:
  assumes "bus_df \<noteq> []" and "luas_df \<noteq> []"
  shows "\<exists>l. hub_score_locals geodesic bikes_df bus_df luas_df lat lng = Inr l"
proof -
  obtain lb where "calculate_distance_to_transport geodesic lat lng bus_df = Inr lb"
    using lookup_nonempty [OF assms(1)] by blast
  moreover obtain ll where "calculate_distance_to_transport geodesic lat lng luas_df = Inr ll"
    using lookup_nonempty [OF assms(2)] by blast
  ultimately show ?thesis
    by (simp add: hub_score_locals_def Let_def)
qed

subsection \<open>Transport connectivity\<close>

text \<open>
  C1. For non-empty bus and rail frames the scorer returns, and its transport component
  is the bus contribution (15 within 200 m, else 10 within 500 m, else
  \<open>max 0 (10 - (d - 500) / 100)\<close>) plus the rail contribution (20 within 500 m, else
  \<open>max 0 (15 - (d - 500) / 100)\<close>), each \<open>d\<close> the minimum distance from the point to
  the frame. The dictionary reports that value rounded to two decimals.
\<close>

theorem C1_transport_score:
  assumes "bus_df \<noteq> []" and "luas_df \<noteq> []"
  shows "\<exists>l. hub_score_locals geodesic bikes_df bus_df luas_df lat lng = Inr l \<and>
           calculate_hub_score geodesic bikes_df bus_df luas_df lat lng = Inr (score_dict l) \<and>
           transport_score (score_dict l) = round2 (l_transport_score l) \<and>
           l_transport_score l =
             (let bus_distance_m = nearest_distance geodesic (lat, lng) bus_df;
                  rail_distance_m = nearest_distance geodesic (lat, lng) luas_df
              in (if bus_distance_m \<le> 200 then 15
                  else if bus_distance_m \<le> 500 then 10
                  else max 0 (10 - (bus_distance_m - 500) / 100))
               + (if rail_distance_m \<le> 500 then 20
                  else max 0 (15 - (rail_distance_m - 500) / 100)))"
proof -
  obtain lb where b: "calculate_distance_to_transport geodesic lat lng bus_df =
           Inr \<lparr>distance_meters = Fin (nearest_distance geodesic (lat, lng) bus_df),
                nearest_station = lb,
                within_500m = (nearest_distance geodesic (lat, lng) bus_df \<le> 500),
                within_200m = (nearest_distance geodesic (lat, lng) bus_df \<le> 200)\<rparr>"
    using lookup_nonempty [OF assms(1)] by blast
  obtain ll where r: "calculate_distance_to_transport geodesic lat lng luas_df =
           Inr \<lparr>distance_meters = Fin (nearest_distance geodesic (lat, lng) luas_df),
                nearest_station = ll,
                within_500m = (nearest_distance geodesic (lat, lng) luas_df \<le> 500),
                within_200m = (nearest_distance geodesic (lat, lng) luas_df \<le> 200)\<rparr>"
    using lookup_nonempty [OF assms(2)] by blast
  show ?thesis
    by (simp add: hub_score_locals_def calculate_hub_score_def b r Let_def score_dict_def
        bus_points_Fin luas_points_Fin)
qed

theorem C1_transport_score_witness:
  "example_bus \<noteq> [] \<and> example_luas \<noteq> [] \<and>
   (\<exists>l. hub_score_locals grid_metres example_bikes example_bus example_luas 53.3440 (-6.2545) = Inr l \<and>
        l_transport_score l = 22.9)"
proof -
  have b: "example_bus \<noteq> []" by (simp add: example_bus_def)
  have r: "example_luas \<noteq> []" by (simp add: example_luas_def)
  have nb: "nearest_distance grid_metres (53.3440, -6.2545) example_bus = 70"
    by (simp add: nearest_distance_def example_bus_def grid_metres_def position_def)
  have nr: "nearest_distance grid_metres (53.3440, -6.2545) example_luas = 1210"
    by (simp add: nearest_distance_def example_luas_def grid_metres_def position_def)
  from C1_transport_score [OF b r, of grid_metres example_bikes "53.3440" "-6.2545"]
  obtain l where l: "hub_score_locals grid_metres example_bikes example_bus example_luas 53.3440 (-6.2545) = Inr l"
    and t: "l_transport_score l =
             (let bus_distance_m = nearest_distance grid_metres (53.3440, -6.2545) example_bus;
                  rail_distance_m = nearest_distance grid_metres (53.3440, -6.2545) example_luas
              in (if bus_distance_m \<le> 200 then 15
                  else if bus_distance_m \<le> 500 then 10
                  else max 0 (10 - (bus_distance_m - 500) / 100))
               + (if rail_distance_m \<le> 500 then 20
                  else max 0 (15 - (rail_distance_m - 500) / 100)))"
    by blast
  have "l_transport_score l = 22.9"
    unfolding t nb nr by simp
  with l b r show ?thesis by blast
qed

subsection \<open>The lookup on an empty frame\<close>

text \<open>
  C4, as stated, at the empty frame: the lookup does not fail with the empty-reference-set
  condition.
\<close>

theorem C4_counterexample:
  "calculate_distance_to_transport grid_metres 53.3440 (-6.2545) [] \<noteq> Inl EmptyReferenceSet"
  by (simp add: calculate_distance_to_transport_def station_label_def)

text \<open>
  C4, amended. On an empty frame the lookup raises \<open>TypeError\<close>, when it reads the label
  of the nearest row and there is none. Whenever it returns, the frame was not empty and
  the distance returned is the finite minimum, never the initial \<open>PInf\<close>.
\<close>

theorem C4_empty_lookup:
  "calculate_distance_to_transport geodesic lat lng [] = Inl TypeError \<and>
   (\<forall>pr. calculate_distance_to_transport geodesic lat lng refs = Inr pr
         \<longrightarrow> refs \<noteq> [] \<and> distance_meters pr = Fin (nearest_distance geodesic (lat, lng) refs))"
proof (intro conjI allI impI)
  show "calculate_distance_to_transport geodesic lat lng [] = Inl TypeError"
    by (rule lookup_empty)
next
  fix pr
  assume h: "calculate_distance_to_transport geodesic lat lng refs = Inr pr"
  show "refs \<noteq> []" using h lookup_empty [of geodesic lat lng] by auto
  then show "distance_meters pr = Fin (nearest_distance geodesic (lat, lng) refs)"
    using lookup_nonempty [of refs geodesic lat lng] h by auto
qed

theorem C4_empty_lookup_witness:
  "calculate_distance_to_transport grid_metres 53.3440 (-6.2545) [] = Inl TypeError \<and>
   (\<exists>pr. calculate_distance_to_transport grid_metres 53.3440 (-6.2545) example_bus = Inr pr \<and>
         example_bus \<noteq> [] \<and> distance_meters pr = Fin 70)"
proof -
  have nb: "nearest_distance grid_metres (53.3440, -6.2545) example_bus = 70"
    by (simp add: nearest_distance_def example_bus_def grid_metres_def position_def)
  obtain pr where pr: "calculate_distance_to_transport grid_metres 53.3440 (-6.2545) example_bus = Inr pr"
    using lookup_nonempty [of example_bus grid_metres "53.3440" "-6.2545"]
    by (auto simp: example_bus_def)
  from C4_empty_lookup [of grid_metres "53.3440" "-6.2545" example_bus] pr
  have "calculate_distance_to_transport grid_metres 53.3440 (-6.2545) [] = Inl TypeError"
    and "example_bus \<noteq> []"
    and "distance_meters pr = Fin (nearest_distance grid_metres (53.3440, -6.2545) example_bus)"
    by blast+
  with pr nb show ?thesis by auto
qed

subsection \<open>Bike demand\<close>

lemma demand_loop_eq:
  "demand_loop geodesic p (acc, n) ss =
     (acc + (\<Sum>s\<leftarrow>filter (\<lambda>s. geodesic p (position s) \<le> 1000) ss.
               real_of_int (availability_score s) * max 0 (1 - geodesic p (position s) / 1000)),
      n + length (filter (\<lambda>s. geodesic p (position s) \<le> 1000) ss))"
  by (induction ss arbitrary: acc n) (simp_all add: Let_def)

lemma calculate_bike_demand_spec:
  "calculate_bike_demand geodesic lat lng bikes_df = bike_demand_spec geodesic (lat, lng) bikes_df"
proof -
  have "real (max (length xs) 1) = (if xs = [] then 1 else real (length xs))" for xs :: "bike list"
    by (cases xs) simp_all
  then show ?thesis
    by (simp add: calculate_bike_demand_def bike_demand_spec_def demand_loop_eq Let_def)
qed

lemma round2_zero: "round2 0 = 0"
  by (simp add: round2_def round_half_even_def)

text \<open>
  C2. The raw bike demand is the sum over exactly the stations within 1000 m of
  \<open>availability_score * max 0 (1 - d / 1000)\<close>, divided by the number of such stations
  (by 1 when there is none); the demand component is \<open>min (raw / 20 * 25) 25\<close>, which
  the dictionary reports rounded to two decimals.
\<close>

theorem C2_bike_demand:
  "calculate_bike_demand geodesic lat lng bikes_df = bike_demand_spec geodesic (lat, lng) bikes_df \<and>
   (\<forall>l. hub_score_locals geodesic bikes_df bus_df luas_df lat lng = Inr l \<longrightarrow>
      l_bike_demand l = bike_demand_spec geodesic (lat, lng) bikes_df \<and>
      l_demand_score l = min (bike_demand_spec geodesic (lat, lng) bikes_df / 20 * 25) 25 \<and>
      calculate_hub_score geodesic bikes_df bus_df luas_df lat lng = Inr (score_dict l) \<and>
      bike_demand (score_dict l) = l_bike_demand l \<and>
      demand_score (score_dict l) = round2 (l_demand_score l))"
  by (auto simp: calculate_bike_demand_spec hub_score_locals_def calculate_hub_score_def
      score_dict_def Let_def split: sum.splits)

theorem C2_bike_demand_witness:
  "\<exists>l. hub_score_locals grid_metres example_bikes example_bus example_luas 53.3440 (-6.2545) = Inr l \<and>
       l_bike_demand l = 19.6 \<and> l_demand_score l = 24.5 \<and>
       demand_score (score_dict l) = 24.5"
proof -
  have d: "bike_demand_spec grid_metres (53.3440, -6.2545) example_bikes = 19.6"
    by (simp add: bike_demand_spec_def example_bikes_def grid_metres_def position_def)
  have r: "round2 24.5 = 24.5"
    by (simp add: round2_def round_half_even_def)
  obtain l where l: "hub_score_locals grid_metres example_bikes example_bus example_luas 53.3440 (-6.2545) = Inr l"
    using locals_nonempty [of example_bus example_luas grid_metres example_bikes "53.3440" "-6.2545"]
    by (auto simp: example_bus_def example_luas_def)
  from C2_bike_demand [of grid_metres "53.3440" "-6.2545" example_bikes example_bus example_luas] l
  have b: "l_bike_demand l = bike_demand_spec grid_metres (53.3440, -6.2545) example_bikes"
    and s: "l_demand_score l = min (bike_demand_spec grid_metres (53.3440, -6.2545) example_bikes / 20 * 25) 25"
    and q: "demand_score (score_dict l) = round2 (l_demand_score l)"
    by blast+
  have s': "l_demand_score l = 24.5" unfolding s d by simp
  have "demand_score (score_dict l) = 24.5" unfolding q s' by (rule r)
  with l b d s' show ?thesis by auto
qed

subsection \<open>Infrastructure gap\<close>

lemma min_one_mono: "ext_le a b \<Longrightarrow> min_one a \<le> min_one b"
  by (cases a; cases b) simp_all

lemma ext_div_mono: "0 < c \<Longrightarrow> ext_le a b \<Longrightarrow> ext_le (ext_div a c) (ext_div b c)"
  by (cases a; cases b) (simp_all add: divide_right_mono)

lemma bike_gap_mono: "ext_le a b \<Longrightarrow> bike_gap a \<le> bike_gap b"
  by (simp add: bike_gap_def min_one_mono ext_div_mono)

lemma bus_gap_mono: "ext_le a b \<Longrightarrow> bus_gap a \<le> bus_gap b"
  by (simp add: bus_gap_def min_one_mono ext_div_mono)

lemma locals_gap_score:
  "hub_score_locals geodesic bikes_df bus_df luas_df lat lng = Inr l \<Longrightarrow>
   l_gap_score l = gap_of_distances (min_distance_loop geodesic (lat, lng) PInf bikes_df)
                                    (min_distance_loop geodesic (lat, lng) PInf bus_df) * 20"
  by (auto simp: hub_score_locals_def calculate_infrastructure_gap_def Let_def split: sum.splits)

text \<open>
  C9. As a function of the nearest bike distance and the nearest bus distance the gap
  score is \<open>20 * (bike_gap + bus_gap) / 2\<close>, non-decreasing in each distance; the two
  terms are the distances over 1000 m and over 500 m, cut off at 1 from above, hence in
  \<open>[0, 1]\<close> for the non-negative distances a geodesic gives. The scorer computes its gap
  component by that function from the two minima and reports it rounded to two decimals.
\<close>

theorem C9_gap_monotone:
  "(ext_le b b' \<and> ext_le s s' \<longrightarrow> gap_of_distances b s * 20 \<le> gap_of_distances b' s' * 20) \<and>
   gap_of_distances b s * 20 = 20 * (bike_gap b + bus_gap s) / 2 \<and>
   (0 \<le> d \<longrightarrow> bike_gap (Fin d) = max 0 (min 1 (d / 1000)) \<and>
              bus_gap (Fin d) = max 0 (min 1 (d / 500))) \<and>
   bike_gap PInf = 1 \<and> bus_gap PInf = 1 \<and>
   (\<forall>l. hub_score_locals geodesic bikes_df bus_df luas_df lat lng = Inr l \<longrightarrow>
      l_gap_score l = gap_of_distances (min_distance_loop geodesic (lat, lng) PInf bikes_df)
                                       (min_distance_loop geodesic (lat, lng) PInf bus_df) * 20 \<and>
      gap_score (score_dict l) = round2 (l_gap_score l)) \<and>
   (bikes_df \<noteq> [] \<longrightarrow> min_distance_loop geodesic (lat, lng) PInf bikes_df
                          = Fin (nearest_distance geodesic (lat, lng) bikes_df)) \<and>
   (bus_df \<noteq> [] \<longrightarrow> min_distance_loop geodesic (lat, lng) PInf bus_df
                        = Fin (nearest_distance geodesic (lat, lng) bus_df))"
proof (intro conjI impI allI)
  assume "ext_le b b' \<and> ext_le s s'"
  then have "bike_gap b \<le> bike_gap b'" and "bus_gap s \<le> bus_gap s'"
    by (simp_all add: bike_gap_mono bus_gap_mono)
  then show "gap_of_distances b s * 20 \<le> gap_of_distances b' s' * 20"
    by (simp add: gap_of_distances_def)
next
  show "gap_of_distances b s * 20 = 20 * (bike_gap b + bus_gap s) / 2"
    by (simp add: gap_of_distances_def)
next
  assume "0 \<le> d"
  then show "bike_gap (Fin d) = max 0 (min 1 (d / 1000))"
    by (simp add: bike_gap_def)
next
  assume "0 \<le> d"
  then show "bus_gap (Fin d) = max 0 (min 1 (d / 500))"
    by (simp add: bus_gap_def)
next
  show "bike_gap PInf = 1" by (simp add: bike_gap_def)
next
  show "bus_gap PInf = 1" by (simp add: bus_gap_def)
next
  fix l
  assume "hub_score_locals geodesic bikes_df bus_df luas_df lat lng = Inr l"
  then show "l_gap_score l = gap_of_distances (min_distance_loop geodesic (lat, lng) PInf bikes_df)
                                       (min_distance_loop geodesic (lat, lng) PInf bus_df) * 20"
    by (rule locals_gap_score)
next
  fix l
  show "gap_score (score_dict l) = round2 (l_gap_score l)"
    by (simp add: score_dict_def)
next
  assume "bikes_df \<noteq> []"
  then show "min_distance_loop geodesic (lat, lng) PInf bikes_df
                          = Fin (nearest_distance geodesic (lat, lng) bikes_df)"
    by (rule min_distance_loop_nonempty)
next
  assume "bus_df \<noteq> []"
  then show "min_distance_loop geodesic (lat, lng) PInf bus_df
                        = Fin (nearest_distance geodesic (lat, lng) bus_df)"
    by (rule min_distance_loop_nonempty)
qed

theorem C9_gap_monotone_witness:
  "ext_le (Fin 300) (Fin 700) \<and> ext_le (Fin 100) PInf \<and>
   gap_of_distances (Fin 300) (Fin 100) * 20 \<le> gap_of_distances (Fin 700) PInf * 20 \<and>
   gap_of_distances (Fin 300) (Fin 100) * 20 = 5 \<and>
   gap_of_distances (Fin 700) PInf * 20 = 17 \<and>
   (0::real) \<le> 300 \<and> bike_gap (Fin 300) = max 0 (min 1 (300 / 1000)) \<and>
   (\<exists>l. hub_score_locals grid_metres example_bikes example_bus example_luas 53.3440 (-6.2545) = Inr l \<and>
        example_bikes \<noteq> [] \<and> example_bus \<noteq> [] \<and> l_gap_score l = 1.6)"
proof -
  have e: "ext_le (Fin 300) (Fin 700) \<and> ext_le (Fin 100) PInf" by simp
  have v: "gap_of_distances (Fin 300) (Fin 100) * 20 = 5" "gap_of_distances (Fin 700) PInf * 20 = 17"
    by (simp_all add: gap_of_distances_def bike_gap_def bus_gap_def)
  have nb: "nearest_distance grid_metres (53.3440, -6.2545) example_bus = 70"
    by (simp add: nearest_distance_def example_bus_def grid_metres_def position_def)
  have nk: "nearest_distance grid_metres (53.3440, -6.2545) example_bikes = 20"
    by (simp add: nearest_distance_def example_bikes_def grid_metres_def position_def)
  have ne: "example_bikes \<noteq> []" "example_bus \<noteq> []"
    by (simp_all add: example_bikes_def example_bus_def)
  obtain l where l: "hub_score_locals grid_metres example_bikes example_bus example_luas 53.3440 (-6.2545) = Inr l"
    using locals_nonempty [of example_bus example_luas grid_metres example_bikes "53.3440" "-6.2545"]
    by (auto simp: example_bus_def example_luas_def)
  note inst = C9_gap_monotone [of "Fin 300" "Fin 700" "Fin 100" PInf 300 grid_metres
      example_bikes example_bus example_luas "53.3440" "-6.2545"]
  from inst e have m: "gap_of_distances (Fin 300) (Fin 100) * 20 \<le> gap_of_distances (Fin 700) PInf * 20"
    by blast
  from inst have c: "bike_gap (Fin 300) = max 0 (min 1 (300 / 1000))" by simp
  from inst l ne have g: "l_gap_score l =
      gap_of_distances (Fin (nearest_distance grid_metres (53.3440, -6.2545) example_bikes))
                       (Fin (nearest_distance grid_metres (53.3440, -6.2545) example_bus)) * 20"
    by simp
  have "l_gap_score l = 1.6"
    unfolding g nb nk by (simp add: gap_of_distances_def bike_gap_def bus_gap_def)
  with e m v c l ne show ?thesis by auto
qed

subsection \<open>An empty bike frame\<close>

text \<open>
  C6. With non-empty bus and rail frames and an empty bike frame the scorer returns: the
  raw demand and the demand score are 0, the nearest-bike scan ends at its initial
  \<open>PInf\<close>, and the bike-gap term is its maximum 1.
\<close>

theorem C6_empty_bikes:
  assumes "bus_df \<noteq> []" and "luas_df \<noteq> []"
  shows "\<exists>l. hub_score_locals geodesic [] bus_df luas_df lat lng = Inr l \<and>
           calculate_hub_score geodesic [] bus_df luas_df lat lng = Inr (score_dict l) \<and>
           l_bike_demand l = 0 \<and> l_demand_score l = 0 \<and>
           demand_score (score_dict l) = 0 \<and>
           min_distance_loop geodesic (lat, lng) PInf ([] :: bike list) = PInf \<and>
           bike_gap (min_distance_loop geodesic (lat, lng) PInf ([] :: bike list)) = 1 \<and>
           l_gap_score l
             = (1 + bus_gap (Fin (nearest_distance geodesic (lat, lng) bus_df))) / 2 * 20"
proof -
  obtain l where l: "hub_score_locals geodesic [] bus_df luas_df lat lng = Inr l"
    using locals_nonempty [OF assms] by blast
  have c: "calculate_hub_score geodesic [] bus_df luas_df lat lng = Inr (score_dict l)"
    by (simp add: calculate_hub_score_def l)
  have b: "l_bike_demand l = 0" and d: "l_demand_score l = 0"
    using l by (auto simp: hub_score_locals_def calculate_bike_demand_def Let_def
        split: sum.splits)
  have r: "demand_score (score_dict l) = 0"
    by (simp add: score_dict_def d round2_zero)
  have g: "l_gap_score l
             = (1 + bus_gap (Fin (nearest_distance geodesic (lat, lng) bus_df))) / 2 * 20"
    using locals_gap_score [OF l] assms(1)
    by (simp add: gap_of_distances_def bike_gap_def min_distance_loop_nonempty)
  show ?thesis
    using l c b d r g by (simp add: bike_gap_def)
qed

theorem C6_empty_bikes_witness:
  "example_bus \<noteq> [] \<and> example_luas \<noteq> [] \<and>
   (\<exists>l. hub_score_locals grid_metres [] example_bus example_luas 53.3440 (-6.2545) = Inr l \<and>
        l_demand_score l = 0 \<and> demand_score (score_dict l) = 0 \<and> l_gap_score l = 11.4)"
proof -
  have b: "example_bus \<noteq> []" by (simp add: example_bus_def)
  have r: "example_luas \<noteq> []" by (simp add: example_luas_def)
  have nb: "nearest_distance grid_metres (53.3440, -6.2545) example_bus = 70"
    by (simp add: nearest_distance_def example_bus_def grid_metres_def position_def)
  from C6_empty_bikes [OF b r, of grid_metres "53.3440" "-6.2545"]
  obtain l where l: "hub_score_locals grid_metres [] example_bus example_luas 53.3440 (-6.2545) = Inr l"
    and d: "l_demand_score l = 0" "demand_score (score_dict l) = 0"
    and g: "l_gap_score l
             = (1 + bus_gap (Fin (nearest_distance grid_metres (53.3440, -6.2545) example_bus))) / 2 * 20"
    by blast
  have "l_gap_score l = 11.4"
    unfolding g nb by (simp add: bus_gap_def)
  with b r l d show ?thesis by blast
qed

subsection \<open>The candidate lattice\<close>






subsection \<open>Independence of the row order\<close>





text \<open>The numeric local variables of the scorer, from the contents of the frames.\<close>

lemma locals_values:
  assumes "bus_df \<noteq> []" and "luas_df \<noteq> []"
  shows "\<exists>l. hub_score_locals geodesic bikes_df bus_df luas_df lat lng = Inr l \<and>
           l_transport_score l =
             (let b = nearest_distance geodesic (lat, lng) bus_df;
                  r = nearest_distance geodesic (lat, lng) luas_df
              in (if b \<le> 200 then 15 else if b \<le> 500 then 10
                  else max 0 (10 - (b - 500) / 100))
               + (if r \<le> 500 then 20 else max 0 (15 - (r - 500) / 100))) \<and>
           l_demand_score l = min (bike_demand_spec geodesic (lat, lng) bikes_df / 20 * 25) 25 \<and>
           l_gap_score l = gap_of_distances (min_distance_loop geodesic (lat, lng) PInf bikes_df)
                             (Fin (nearest_distance geodesic (lat, lng) bus_df)) * 20 \<and>
           l_accessibility_score l = calculate_accessibility_score geodesic lat lng * 15 \<and>
           l_population_score l = 5 \<and>
           l_total_score l = l_transport_score l + l_demand_score l + l_gap_score l
                             + l_accessibility_score l + l_population_score l"
proof -
  obtain lb where b: "calculate_distance_to_transport geodesic lat lng bus_df =
           Inr \<lparr>distance_meters = Fin (nearest_distance geodesic (lat, lng) bus_df),
                nearest_station = lb,
                within_500m = (nearest_distance geodesic (lat, lng) bus_df \<le> 500),
                within_200m = (nearest_distance geodesic (lat, lng) bus_df \<le> 200)\<rparr>"
    using lookup_nonempty [OF assms(1)] by blast
  obtain ll where r: "calculate_distance_to_transport geodesic lat lng luas_df =
           Inr \<lparr>distance_meters = Fin (nearest_distance geodesic (lat, lng) luas_df),
                nearest_station = ll,
                within_500m = (nearest_distance geodesic (lat, lng) luas_df \<le> 500),
                within_200m = (nearest_distance geodesic (lat, lng) luas_df \<le> 200)\<rparr>"
    using lookup_nonempty [OF assms(2)] by blast
  let ?B = "\<lparr>distance_meters = Fin (nearest_distance geodesic (lat, lng) bus_df),
                nearest_station = lb,
                within_500m = (nearest_distance geodesic (lat, lng) bus_df \<le> 500),
                within_200m = (nearest_distance geodesic (lat, lng) bus_df \<le> 200)\<rparr>"
  let ?R = "\<lparr>distance_meters = Fin (nearest_distance geodesic (lat, lng) luas_df),
                nearest_station = ll,
                within_500m = (nearest_distance geodesic (lat, lng) luas_df \<le> 500),
                within_200m = (nearest_distance geodesic (lat, lng) luas_df \<le> 200)\<rparr>"
  let ?l = "\<lparr>l_bus_proximity = ?B,
             l_luas_proximity = ?R,
             l_transport_score = 0 + bus_points ?B + luas_points ?R,
             l_bike_demand = calculate_bike_demand geodesic lat lng bikes_df,
             l_demand_score = min (calculate_bike_demand geodesic lat lng bikes_df / 20 * 25) 25,
             l_gap_score = calculate_infrastructure_gap geodesic lat lng bikes_df bus_df * 20,
             l_accessibility_score = calculate_accessibility_score geodesic lat lng * 15,
             l_population_score = 5,
             l_total_score = 0 + bus_points ?B + luas_points ?R
               + min (calculate_bike_demand geodesic lat lng bikes_df / 20 * 25) 25
               + calculate_infrastructure_gap geodesic lat lng bikes_df bus_df * 20
               + calculate_accessibility_score geodesic lat lng * 15 + 5\<rparr>"
  have h: "hub_score_locals geodesic bikes_df bus_df luas_df lat lng = Inr ?l"
    unfolding hub_score_locals_def b r sum.case Let_def ..
  have t: "l_transport_score ?l =
             (let b = nearest_distance geodesic (lat, lng) bus_df;
                  r = nearest_distance geodesic (lat, lng) luas_df
              in (if b \<le> 200 then 15 else if b \<le> 500 then 10
                  else max 0 (10 - (b - 500) / 100))
               + (if r \<le> 500 then 20 else max 0 (15 - (r - 500) / 100)))"
    by (simp add: bus_points_Fin luas_points_Fin Let_def)
  have d: "l_demand_score ?l = min (bike_demand_spec geodesic (lat, lng) bikes_df / 20 * 25) 25"
    by (simp add: calculate_bike_demand_spec)
  have g: "l_gap_score ?l = gap_of_distances (min_distance_loop geodesic (lat, lng) PInf bikes_df)
                             (Fin (nearest_distance geodesic (lat, lng) bus_df)) * 20"
    by (simp add: calculate_infrastructure_gap_def min_distance_loop_nonempty [OF assms(1)])
  have a: "l_accessibility_score ?l = calculate_accessibility_score geodesic lat lng * 15"
    by simp
  have p: "l_population_score ?l = 5" by simp
  have s: "l_total_score ?l = l_transport_score ?l + l_demand_score ?l + l_gap_score ?l
                             + l_accessibility_score ?l + l_population_score ?l"
    by (simp only: score_locals.select_convs)
  from h t d g a p s show ?thesis by blast
qed

lemma scores_score_dict:
  "scores (score_dict l) =
     (round2 (l_total_score l), round2 (l_transport_score l), round2 (l_demand_score l),
      round2 (l_gap_score l), round2 (l_accessibility_score l), round2 (l_population_score l))"
  by (simp add: scores_def score_dict_def)




subsection \<open>The row order in double precision\<close>





















subsection \<open>Rounding\<close>

lemma rounding_bus_distance:
  "nearest_distance grid_metres (53.351128, -6.2603) rounding_bus = 400"
  by (simp add: nearest_distance_def rounding_bus_def grid_metres_def position_def)

lemma rounding_luas_distance:
  "nearest_distance grid_metres (53.351128, -6.2603) rounding_luas = 599.6"
  by (simp add: nearest_distance_def rounding_luas_def grid_metres_def position_def)

lemma rounding_accessibility:
  "calculate_accessibility_score grid_metres 53.351128 (-6.2603) * 15 = 14.004"
  by (simp add: calculate_accessibility_score_def key_locations_def grid_metres_def Let_def)

lemma round2_values:
  "round2 61.008 = 61.01" "round2 24.004 = 24" "round2 14.004 = 14" "round2 18 = 18"
  "round2 5 = 5"
  by (simp_all add: round2_def round_half_even_def)

lemma locals_fields:
  assumes "hub_score_locals geodesic bikes_df bus_df luas_df lat lng = Inr l"
  shows "l_transport_score l =
             (let b = nearest_distance geodesic (lat, lng) bus_df;
                  r = nearest_distance geodesic (lat, lng) luas_df
              in (if b \<le> 200 then 15 else if b \<le> 500 then 10
                  else max 0 (10 - (b - 500) / 100))
               + (if r \<le> 500 then 20 else max 0 (15 - (r - 500) / 100)))"
    and "l_demand_score l = min (bike_demand_spec geodesic (lat, lng) bikes_df / 20 * 25) 25"
    and "l_gap_score l = gap_of_distances (min_distance_loop geodesic (lat, lng) PInf bikes_df)
                             (Fin (nearest_distance geodesic (lat, lng) bus_df)) * 20"
    and "l_accessibility_score l = calculate_accessibility_score geodesic lat lng * 15"
    and "l_population_score l = 5"
    and "l_total_score l = l_transport_score l + l_demand_score l + l_gap_score l
                           + l_accessibility_score l + l_population_score l"
proof -
  have "bus_df \<noteq> []"
    using assms by (auto simp: hub_score_locals_def lookup_empty)
  moreover have "luas_df \<noteq> []"
    using assms by (auto simp: hub_score_locals_def lookup_empty split: sum.splits)
  ultimately obtain l' where l': "hub_score_locals geodesic bikes_df bus_df luas_df lat lng = Inr l'"
    and v: "l_transport_score l' =
             (let b = nearest_distance geodesic (lat, lng) bus_df;
                  r = nearest_distance geodesic (lat, lng) luas_df
              in (if b \<le> 200 then 15 else if b \<le> 500 then 10
                  else max 0 (10 - (b - 500) / 100))
               + (if r \<le> 500 then 20 else max 0 (15 - (r - 500) / 100)))"
      "l_demand_score l' = min (bike_demand_spec geodesic (lat, lng) bikes_df / 20 * 25) 25"
      "l_gap_score l' = gap_of_distances (min_distance_loop geodesic (lat, lng) PInf bikes_df)
                             (Fin (nearest_distance geodesic (lat, lng) bus_df)) * 20"
      "l_accessibility_score l' = calculate_accessibility_score geodesic lat lng * 15"
      "l_population_score l' = 5"
      "l_total_score l' = l_transport_score l' + l_demand_score l' + l_gap_score l'
                           + l_accessibility_score l' + l_population_score l'"
    using locals_values [of bus_df luas_df geodesic bikes_df lat lng] by blast
  from assms l' have e: "l' = l" by simp
  show "l_transport_score l =
             (let b = nearest_distance geodesic (lat, lng) bus_df;
                  r = nearest_distance geodesic (lat, lng) luas_df
              in (if b \<le> 200 then 15 else if b \<le> 500 then 10
                  else max 0 (10 - (b - 500) / 100))
               + (if r \<le> 500 then 20 else max 0 (15 - (r - 500) / 100)))"
    using v(1) unfolding e .
  show "l_demand_score l = min (bike_demand_spec geodesic (lat, lng) bikes_df / 20 * 25) 25"
    using v(2) unfolding e .
  show "l_gap_score l = gap_of_distances (min_distance_loop geodesic (lat, lng) PInf bikes_df)
                             (Fin (nearest_distance geodesic (lat, lng) bus_df)) * 20"
    using v(3) unfolding e .
  show "l_accessibility_score l = calculate_accessibility_score geodesic lat lng * 15"
    using v(4) unfolding e .
  show "l_population_score l = 5"
    using v(5) unfolding e .
  show "l_total_score l = l_transport_score l + l_demand_score l + l_gap_score l
                           + l_accessibility_score l + l_population_score l"
    using v(6) unfolding e .
qed

lemma rounding_locals:
  assumes "hub_score_locals grid_metres [] rounding_bus rounding_luas 53.351128 (-6.2603) = Inr l"
  shows "l_total_score l = 61.008" and "l_transport_score l = 24.004"
    and "l_demand_score l = 0" and "l_gap_score l = 18"
    and "l_accessibility_score l = 14.004" and "l_population_score l = 5"
proof -
  note f = locals_fields [OF assms]
  show t: "l_transport_score l = 24.004"
    unfolding f(1) rounding_bus_distance rounding_luas_distance by simp
  show d: "l_demand_score l = 0"
    unfolding f(2) by (simp add: bike_demand_spec_def)
  show g: "l_gap_score l = 18"
    unfolding f(3) rounding_bus_distance
    by (simp add: gap_of_distances_def bike_gap_def bus_gap_def)
  show a: "l_accessibility_score l = 14.004"
    unfolding f(4) by (rule rounding_accessibility)
  show p: "l_population_score l = 5" by (rule f(5))
  show "l_total_score l = 61.008"
    unfolding f(6) t d g a p by simp
qed

lemma rounding_example:
  "map_sum id scores
     (calculate_hub_score grid_metres [] rounding_bus rounding_luas 53.351128 (-6.2603))
   = Inr (61.01, 24, 0, 18, 14, 5)"
proof -
  have "rounding_bus \<noteq> []" and "rounding_luas \<noteq> []"
    by (simp_all add: rounding_bus_def rounding_luas_def)
  then obtain l where
    l: "hub_score_locals grid_metres [] rounding_bus rounding_luas 53.351128 (-6.2603) = Inr l"
    using locals_nonempty by blast
  have c: "calculate_hub_score grid_metres [] rounding_bus rounding_luas 53.351128 (-6.2603)
      = Inr (score_dict l)"
    unfolding calculate_hub_score_def l sum.case ..
  have "scores (score_dict l) = (61.01, 24, 0, 18, 14, 5)"
    unfolding scores_score_dict rounding_locals [OF l] round2_values round2_zero ..
  then show ?thesis
    unfolding c by simp
qed

text \<open>
  C10. The reported total is the sum of the five unrounded components, rounded to two
  decimals, and each reported sub-score is its own component rounded to two decimals. The
  reported total need not be the sum of the reported sub-scores: at the example the
  components are 24.004, 0, 18, 14.004 and 5, the reported sub-scores 24, 0, 18, 14 and 5,
  and the reported total 61.01.
\<close>

theorem C10_rounding:
  "(\<forall>l. hub_score_locals geodesic bikes_df bus_df luas_df lat lng = Inr l \<longrightarrow>
      calculate_hub_score geodesic bikes_df bus_df luas_df lat lng = Inr (score_dict l) \<and>
      total_score (score_dict l)
        = round2 (l_transport_score l + l_demand_score l + l_gap_score l
                  + l_accessibility_score l + l_population_score l) \<and>
      transport_score (score_dict l) = round2 (l_transport_score l) \<and>
      demand_score (score_dict l) = round2 (l_demand_score l) \<and>
      gap_score (score_dict l) = round2 (l_gap_score l) \<and>
      accessibility_score (score_dict l) = round2 (l_accessibility_score l) \<and>
      population_score (score_dict l) = round2 (l_population_score l)) \<and>
   map_sum id scores
     (calculate_hub_score grid_metres [] rounding_bus rounding_luas 53.351128 (-6.2603))
   = Inr (61.01, 24, 0, 18, 14, 5) \<and>
   (61.01 :: real) \<noteq> 24 + 0 + 18 + 14 + 5"
proof (intro conjI allI impI)
  fix l
  assume h: "hub_score_locals geodesic bikes_df bus_df luas_df lat lng = Inr l"
  show "calculate_hub_score geodesic bikes_df bus_df luas_df lat lng = Inr (score_dict l)"
    by (simp add: calculate_hub_score_def h)
  show "total_score (score_dict l)
        = round2 (l_transport_score l + l_demand_score l + l_gap_score l
                  + l_accessibility_score l + l_population_score l)"
    using locals_fields(6) [OF h] by (simp add: score_dict_def)
  show "transport_score (score_dict l) = round2 (l_transport_score l)"
    by (simp add: score_dict_def)
  show "demand_score (score_dict l) = round2 (l_demand_score l)"
    by (simp add: score_dict_def)
  show "gap_score (score_dict l) = round2 (l_gap_score l)"
    by (simp add: score_dict_def)
  show "accessibility_score (score_dict l) = round2 (l_accessibility_score l)"
    by (simp add: score_dict_def)
  show "population_score (score_dict l) = round2 (l_population_score l)"
    by (simp add: score_dict_def)
next
  show "map_sum id scores
     (calculate_hub_score grid_metres [] rounding_bus rounding_luas 53.351128 (-6.2603))
   = Inr (61.01, 24, 0, 18, 14, 5)"
    by (rule rounding_example)
next
  show "(61.01 :: real) \<noteq> 24 + 0 + 18 + 14 + 5" by simp
qed

theorem C10_rounding_witness:
  "\<exists>l. hub_score_locals grid_metres [] rounding_bus rounding_luas 53.351128 (-6.2603) = Inr l \<and>
       calculate_hub_score grid_metres [] rounding_bus rounding_luas 53.351128 (-6.2603)
         = Inr (score_dict l) \<and>
       total_score (score_dict l)
         = round2 (l_transport_score l + l_demand_score l + l_gap_score l
                   + l_accessibility_score l + l_population_score l) \<and>
       transport_score (score_dict l) = round2 (l_transport_score l)"
proof -
  have "rounding_bus \<noteq> []" and "rounding_luas \<noteq> []"
    by (simp_all add: rounding_bus_def rounding_luas_def)
  then obtain l where
    l: "hub_score_locals grid_metres [] rounding_bus rounding_luas 53.351128 (-6.2603) = Inr l"
    using locals_nonempty by blast
  with C10_rounding [of grid_metres "[]" rounding_bus rounding_luas "53.351128" "-6.2603"]
  show ?thesis by blast
qed

end
